theory Spec2Isabelle
  imports Main "HOL-Library.Word"
begin

section \<open>Python values and the operations the endpoint applies to them\<close>

text \<open>
  The gateway (\<^verbatim>\<open>src/gatepoint/gateway.py\<close>) handles the decoded request body as an
  untyped Python value. A decoded JSON document is one of the values below; JSON numbers
  are the integers (floats are left out of the model), and an object is the list of its
  key/value pairs, looked up by key as a Python \<^verbatim>\<open>dict\<close> is.
\<close>

datatype json =
    JNull
  | JBool bool
  | JInt int
  | JStr string
  | JArr "json list"
  | JObj "(string \<times> json) list"

text \<open>
  Every \<^verbatim>\<open>raise\<close> of the endpoint, of the builtins it calls and of the user's
  handlers is a value: \<open>HTTPException status detail\<close> is FastAPI's exception, the others
  are the Python exceptions of the same name, \<open>HandlerFailure\<close> is any exception raised by
  user code.
\<close>

datatype exc =
    HTTPException nat string
  | BadSignatureError
  | ValueError
  | TypeError
  | KeyError
  | IndexError
  | AttributeError
  | UnicodeDecodeError
  | UnicodeEncodeError
  | JSONDecodeError
  | HandlerFailure string

text \<open>Python truthiness (\<^verbatim>\<open>if x\<close>) of a decoded JSON value.\<close>

fun truthy :: "json \<Rightarrow> bool" where
  "truthy JNull = False"
| "truthy (JBool b) = b"
| "truthy (JInt n) = (n \<noteq> 0)"
| "truthy (JStr s) = (s \<noteq> [])"
| "truthy (JArr xs) = (xs \<noteq> [])"
| "truthy (JObj kvs) = (kvs \<noteq> [])"

text \<open>
  \<^verbatim>\<open>obj["key"]\<close> with a string key: only a \<^verbatim>\<open>dict\<close> accepts it (KeyError when the
  key is absent); a string or list wants integer indices and every other value is not
  subscriptable, both a TypeError.
\<close>

fun getitem_str :: "json \<Rightarrow> string \<Rightarrow> exc + json" where
  "getitem_str (JObj kvs) k = (case map_of kvs k of None \<Rightarrow> Inl KeyError | Some v \<Rightarrow> Inr v)"
| "getitem_str _ k = Inl TypeError"

text \<open>
  \<^verbatim>\<open>obj[0]\<close>: the first element of a list, the first character of a string
  (IndexError when empty); a \<^verbatim>\<open>dict\<close> decoded from JSON has string keys only, so
  \<^verbatim>\<open>0\<close> is a missing key; anything else is not subscriptable.
\<close>

fun getitem_0 :: "json \<Rightarrow> exc + json" where
  "getitem_0 (JArr []) = Inl IndexError"
| "getitem_0 (JArr (x # xs)) = Inr x"
| "getitem_0 (JStr []) = Inl IndexError"
| "getitem_0 (JStr (c # cs)) = Inr (JStr [c])"
| "getitem_0 (JObj kvs) = Inl KeyError"
| "getitem_0 _ = Inl TypeError"

text \<open>\<^verbatim>\<open>obj.get("key")\<close>: a method of \<^verbatim>\<open>dict\<close> only, \<^verbatim>\<open>None\<close> for a missing key.\<close>

fun py_get :: "json \<Rightarrow> string \<Rightarrow> exc + json" where
  "py_get (JObj kvs) k = Inr (case map_of kvs k of None \<Rightarrow> JNull | Some v \<Rightarrow> v)"
| "py_get _ k = Inl AttributeError"

text \<open>
  Comparison with an integer literal. \<^verbatim>\<open>bool\<close> is a subclass of \<^verbatim>\<open>int\<close>
  (\<^verbatim>\<open>True == 1\<close>); \<^verbatim>\<open>==\<close> is False for every other type, while the ordering
  comparisons raise TypeError there.
\<close>

fun as_int :: "json \<Rightarrow> int option" where
  "as_int (JInt n) = Some n"
| "as_int (JBool b) = Some (if b then 1 else 0)"
| "as_int _ = None"

definition py_eq_int :: "json \<Rightarrow> int \<Rightarrow> bool" where
  "py_eq_int v n = (as_int v = Some n)"

definition py_ge_int :: "json \<Rightarrow> int \<Rightarrow> exc + bool" where
  "py_ge_int v n = (case as_int v of None \<Rightarrow> Inl TypeError | Some m \<Rightarrow> Inr (n \<le> m))"

definition py_lt_int :: "json \<Rightarrow> int \<Rightarrow> exc + bool" where
  "py_lt_int v n = (case as_int v of None \<Rightarrow> Inl TypeError | Some m \<Rightarrow> Inr (m < n))"

text \<open>\<^verbatim>\<open>v in (3, 4, 5, 6, 7, 8)\<close>: equality with one of the members.\<close>

definition is_select_menu :: "json \<Rightarrow> bool" where
  "is_select_menu v = list_ex (py_eq_int v) [3, 4, 5, 6, 7, 8]"

text \<open>
  Iterating a value in a \<^verbatim>\<open>for\<close> loop: the elements of a list, the characters of a
  string, the keys of a \<^verbatim>\<open>dict\<close>; the other values are not iterable.
\<close>

fun py_iter :: "json \<Rightarrow> exc + json list" where
  "py_iter (JArr xs) = Inr xs"
| "py_iter (JStr s) = Inr (map (\<lambda>c. JStr [c]) s)"
| "py_iter (JObj kvs) = Inr (map (\<lambda>kv. JStr (fst kv)) kvs)"
| "py_iter _ = Inl TypeError"

section \<open>Handlers, registries and the gateway client\<close>

text \<open>
  Modelled from the spec: the class \<^verbatim>\<open>Interaction\<close> is imported from the module
  \<^verbatim>\<open>.interaction\<close>, which is not among the sources. It is the read-only facade of
  section 4.5, a wrapper of the payload it was built from, so an argument of a handler is
  either such a facade or a plain value taken from the payload.
\<close>

datatype arg = Interaction json | Plain json

text \<open>
  A handler is the user's coroutine function: its name and what a call with the given
  positional arguments does, returning a value or raising.
\<close>

record handler =
  hname :: string
  hbody :: "arg list \<Rightarrow> exc + json"

text \<open>
  A value of the dictionary \<^verbatim>\<open>self.events\<close>: a list of handlers, or \<^verbatim>\<open>None\<close>.
\<close>

datatype slot = PyNone | PyList "handler list"

record gateway =
  public_key :: string
  buttons :: "string \<rightharpoonup> handler"
  commands :: "string \<rightharpoonup> handler"
  events :: "string \<rightharpoonup> slot"
  menus :: "string \<rightharpoonup> handler"

text \<open>The registries of a freshly constructed \<^verbatim>\<open>GatewayClient\<close> are empty.\<close>

definition new_client :: "string \<Rightarrow> gateway" where
  "new_client pk =
     \<lparr>public_key = pk, buttons = Map.empty, commands = Map.empty,
      events = Map.empty, menus = Map.empty\<rparr>"

text \<open>
  \<^verbatim>\<open>GatewayClient.on(event)(func)\<close>. When \<^verbatim>\<open>self.events.get(event)\<close> is a non-empty
  list, \<^verbatim>\<open>event_list\<close> is the result of \<^verbatim>\<open>list.append\<close>, which is \<^verbatim>\<open>None\<close>: the
  list that was extended is dropped when \<^verbatim>\<open>self.events[event]\<close> is overwritten.
\<close>

definition on :: "gateway \<Rightarrow> string \<Rightarrow> handler \<Rightarrow> gateway" where
  "on gw event func =
     (let event_list =
            (case events gw event of
               Some (PyList (h # hs)) \<Rightarrow> PyNone
             | _ \<Rightarrow> PyList [func])
      in gw\<lparr>events := (events gw)(event \<mapsto> event_list)\<rparr>)"

text \<open>\<^verbatim>\<open>self.events.get(name) or []\<close>, the handlers a dispatch iterates over.\<close>

definition event_handlers :: "gateway \<Rightarrow> string \<Rightarrow> handler list" where
  "event_handlers gw name =
     (case events gw name of Some (PyList hs) \<Rightarrow> hs | _ \<Rightarrow> [])"

text \<open>
  \<^verbatim>\<open>key in registry\<close> for one of the handler dictionaries, returning the handler that
  \<^verbatim>\<open>registry[key]\<close> then reads: a list or a \<^verbatim>\<open>dict\<close> is unhashable (TypeError), and a
  key that is not a string is in no registry.
\<close>

fun lookup :: "(string \<rightharpoonup> handler) \<Rightarrow> json \<Rightarrow> exc + handler option" where
  "lookup reg (JStr s) = Inr (reg s)"
| "lookup reg (JArr xs) = Inl TypeError"
| "lookup reg (JObj kvs) = Inl TypeError"
| "lookup reg _ = Inr None"

section \<open>What a request does and how it ends\<close>

text \<open>
  The calls a request makes on its collaborators, in the order it makes them:
  \<open>Verify message signature\<close> is \<^verbatim>\<open>verify_key.verify(message, signature)\<close>,
  \<open>JsonLoads\<close> is \<^verbatim>\<open>request.json()\<close>, \<open>Fire event name args\<close> is the call of a
  lifecycle handler of that event, \<open>Invoke name args\<close> the call of the routed command,
  button or menu handler.
\<close>

type_synonym byte = "8 word"

datatype event =
    Verify "byte list" "byte list"
  | JsonLoads
  | Fire string string "arg list"
  | Invoke string "arg list"

text \<open>
  The endpoint either returns a value to FastAPI or raises. The value is a JSON document,
  or (line 246) an exception object that is returned instead of raised.
\<close>

datatype retval = Json json | ExcObject exc

datatype outcome = Returned retval | Raised exc

text \<open>
  What FastAPI sends for an outcome: a raised \<^verbatim>\<open>HTTPException\<close> becomes a response with
  its status code and the body \<^verbatim>\<open>{"detail": detail}\<close>; any other exception is a
  500; a returned value is serialised into a 200 response, an object that is not JSON
  through its attributes.
\<close>

fun http_response :: "outcome \<Rightarrow> nat \<times> json" where
  "http_response (Raised (HTTPException status detail)) =
     (status, JObj [(''detail'', JStr detail)])"
| "http_response (Raised e) = (500, JStr ''Internal Server Error'')"
| "http_response (Returned (Json v)) = (200, v)"
| "http_response (Returned (ExcObject (HTTPException status detail))) =
     (200, JObj [(''status_code'', JInt (int status)), (''detail'', JStr detail),
                 (''headers'', JNull)])"
| "http_response (Returned (ExcObject e)) = (200, JObj [])"

definition or_raise :: "exc + 'a \<Rightarrow> ('a \<Rightarrow> event list \<times> outcome) \<Rightarrow> event list \<times> outcome" where
  "or_raise m f = (case m of Inl e \<Rightarrow> ([], Raised e) | Inr x \<Rightarrow> f x)"

section \<open>Processing a verified request\<close>

text \<open>
  \<^verbatim>\<open>for event in self.events.get(name) or []: await event(Interaction(payload))\<close>:
  the handlers run one after the other, and the first that raises ends the loop and the
  request.
\<close>

fun fire :: "string \<Rightarrow> handler list \<Rightarrow> json \<Rightarrow> event list \<times> exc option" where
  "fire name [] p = ([], None)"
| "fire name (h # hs) p =
     (case hbody h [Interaction p] of
        Inl e \<Rightarrow> ([Fire name (hname h) [Interaction p]], Some e)
      | Inr r \<Rightarrow>
          (case fire name hs p of
             (cs, res) \<Rightarrow> (Fire name (hname h) [Interaction p] # cs, res)))"

text \<open>\<^verbatim>\<open>return await handler(*args)\<close>.\<close>

definition invoke :: "handler \<Rightarrow> arg list \<Rightarrow> event list \<times> outcome" where
  "invoke h args =
     ([Invoke (hname h) args],
      (case hbody h args of Inl e \<Rightarrow> Raised e | Inr v \<Rightarrow> Returned (Json v)))"

text \<open>
  The two loops that precede every routed handler: the handlers of
  \<^verbatim>\<open>interaction_receive\<close>, then those of the event of the interaction's kind, then the
  rest of the branch.
\<close>

definition with_lifecycle ::
  "gateway \<Rightarrow> string \<Rightarrow> json \<Rightarrow> event list \<times> outcome \<Rightarrow> event list \<times> outcome" where
  "with_lifecycle gw kind p rest =
     (case fire ''interaction_receive'' (event_handlers gw ''interaction_receive'') p of
        (cs1, Some e) \<Rightarrow> (cs1, Raised e)
      | (cs1, None) \<Rightarrow>
          (case fire kind (event_handlers gw kind) p of
             (cs2, Some e) \<Rightarrow> (cs1 @ cs2, Raised e)
           | (cs2, None) \<Rightarrow>
               (case rest of (cs3, out) \<Rightarrow> (cs1 @ cs2 @ cs3, out))))"

definition default_response :: "string \<Rightarrow> json" where
  "default_response content =
     JObj [(''type'', JInt 4),
           (''data'', JObj [(''content'', JStr content), (''flags'', JInt 64)])]"

text \<open>
  \<^verbatim>\<open>input_tuple.__add__((option["value"]))\<close>: the operand is the option's value in
  parentheses, not a one-element tuple, and no value decoded from JSON is a tuple, so
  \<^verbatim>\<open>tuple.__add__\<close> raises TypeError (can only concatenate tuple to tuple).
\<close>

definition tuple_add :: "json list \<Rightarrow> json \<Rightarrow> exc + json list" where
  "tuple_add t v = Inl TypeError"

fun collect_options :: "json list \<Rightarrow> json list \<Rightarrow> exc + json list" where
  "collect_options input_tuple [] = Inr input_tuple"
| "collect_options input_tuple (option # options) =
     (case getitem_str option ''value'' of
        Inl e \<Rightarrow> Inl e
      | Inr v \<Rightarrow>
          (case tuple_add input_tuple v of
             Inl e \<Rightarrow> Inl e
           | Inr t \<Rightarrow> collect_options t options))"

text \<open>Lines 270 to 278: the call of the command handler, with or without options.\<close>

definition call_command :: "handler \<Rightarrow> json \<Rightarrow> event list \<times> outcome" where
  "call_command h p =
     or_raise (py_get p ''data'') (\<lambda>d.
     or_raise (py_get d ''options'') (\<lambda>opts.
       if truthy opts then
         or_raise (py_iter opts) (\<lambda>options.
         or_raise (collect_options [] options) (\<lambda>input_tuple.
           invoke h (Interaction p # map Plain input_tuple)))
       else invoke h [Interaction p]))"

text \<open>Lines 260 to 286: \<^verbatim>\<open>interaction_payload["type"] == 2\<close>.\<close>

definition command_branch :: "gateway \<Rightarrow> json \<Rightarrow> event list \<times> outcome" where
  "command_branch gw p =
     or_raise (getitem_str p ''data'') (\<lambda>d.
     or_raise (getitem_str d ''name'') (\<lambda>name.
     or_raise (lookup (commands gw) name) (\<lambda>found.
       case found of
         Some h \<Rightarrow> with_lifecycle gw ''command_receive'' p (call_command h p)
       | None \<Rightarrow>
           ([], Returned (Json (default_response
              ''This command is not registered with Interaction Gateway API.''))))))"

text \<open>
  Line 291: \<^verbatim>\<open>data["values"][0] if data["values"] else None\<close>. The condition reads
  the key first, so a \<^verbatim>\<open>data\<close> without it raises KeyError.
\<close>

definition menu_value :: "json \<Rightarrow> exc + json" where
  "menu_value d =
     (case getitem_str d ''values'' of
        Inl e \<Rightarrow> Inl e
      | Inr vs \<Rightarrow> if truthy vs then getitem_0 vs else Inr JNull)"

text \<open>Lines 292 to 309: the select menu, once \<^verbatim>\<open>value\<close> is computed.\<close>

definition route_menu :: "gateway \<Rightarrow> json \<Rightarrow> json \<Rightarrow> event list \<times> outcome" where
  "route_menu gw p d =
     or_raise (getitem_str d ''custom_id'') (\<lambda>custom_id.
     or_raise (lookup (menus gw) custom_id) (\<lambda>found.
       case found of
         Some h \<Rightarrow>
           with_lifecycle gw ''menu_select'' p
             (or_raise (getitem_str d ''values'') (\<lambda>vs.
                invoke h [Interaction p, Plain vs]))
       | None \<Rightarrow>
           ([], Returned (Json (default_response
              ''This menu is not registered with Interaction Gateway API.'')))))"

text \<open>Lines 311 to 328: every other component is a button.\<close>

definition route_button :: "gateway \<Rightarrow> json \<Rightarrow> json \<Rightarrow> event list \<times> outcome" where
  "route_button gw p d =
     or_raise (getitem_str d ''custom_id'') (\<lambda>custom_id.
     or_raise (lookup (buttons gw) custom_id) (\<lambda>found.
       case found of
         Some h \<Rightarrow> with_lifecycle gw ''button_click'' p (invoke h [Interaction p])
       | None \<Rightarrow>
           ([], Returned (Json (default_response
              ''This button is not registered with Interaction Gateway API.'')))))"

text \<open>Lines 288 to 328: \<^verbatim>\<open>interaction_payload["type"] == 3\<close>.\<close>

definition component_branch :: "gateway \<Rightarrow> json \<Rightarrow> event list \<times> outcome" where
  "component_branch gw p =
     or_raise (getitem_str p ''data'') (\<lambda>d.
     or_raise (getitem_str d ''component_type'') (\<lambda>component_type.
       if is_select_menu component_type then
         or_raise (menu_value d) (\<lambda>value. route_menu gw p d)
       else route_button gw p d))"

definition not_supported :: "event list \<times> outcome" where
  "not_supported =
     ([], Returned (Json (default_response
        ''This interaction is not yet supported by Interaction Gateway API.'')))"

text \<open>
  Lines 254 to 340, the chain on \<^verbatim>\<open>interaction_payload["type"]\<close>. The fourth test is
  \<^verbatim>\<open>type >= 4 or type < 12\<close>, whose second operand is evaluated when the first is
  false.
\<close>

definition process_request :: "gateway \<Rightarrow> json \<Rightarrow> event list \<times> outcome" where
  "process_request gw p =
     or_raise (getitem_str p ''type'') (\<lambda>t.
       if py_eq_int t 1 then ([], Returned (Json (JObj [(''type'', JInt 1)])))
       else if py_eq_int t 2 then command_branch gw p
       else if py_eq_int t 3 then component_branch gw p
       else
         or_raise (py_ge_int t 4) (\<lambda>ge.
           if ge then not_supported
           else
             or_raise (py_lt_int t 12) (\<lambda>lt.
               if lt then not_supported
               else ([], Raised (HTTPException 400
                 ''Interaction not recognised by Interaction Gateway API.'')))))"

section \<open>Bytes, hexadecimal strings and UTF-8\<close>

text \<open>
  \<^verbatim>\<open>bytes.fromhex\<close>: ASCII whitespace is skipped before each byte, then two hexadecimal
  digits must follow one another; anything else is a ValueError.
\<close>

definition is_space :: "char \<Rightarrow> bool" where
  "is_space c = ((of_char c :: nat) = 32 \<or> (9 \<le> (of_char c :: nat) \<and> (of_char c :: nat) \<le> 13))"

definition hex_digit :: "char \<Rightarrow> nat option" where
  "hex_digit c =
     (let n = (of_char c :: nat) in
      if 48 \<le> n \<and> n \<le> 57 then Some (n - 48)
      else if 97 \<le> n \<and> n \<le> 102 then Some (n - 87)
      else if 65 \<le> n \<and> n \<le> 70 then Some (n - 55)
      else None)"

fun fromhex :: "string \<Rightarrow> exc + byte list" where
  "fromhex [] = Inr []"
| "fromhex (c # cs) =
     (if is_space c then fromhex cs
      else
        (case hex_digit c of
           None \<Rightarrow> Inl ValueError
         | Some hi \<Rightarrow>
             (case cs of
                [] \<Rightarrow> Inl ValueError
              | d # ds \<Rightarrow>
                  (case hex_digit d of
                     None \<Rightarrow> Inl ValueError
                   | Some lo \<Rightarrow>
                       (case fromhex ds of
                          Inl e \<Rightarrow> Inl e
                        | Inr bs \<Rightarrow> Inr (of_nat (hi * 16 + lo) # bs))))))"

text \<open>
  \<^verbatim>\<open>bytes.decode("utf-8")\<close> in strict mode. A Python \<^verbatim>\<open>str\<close> is the list of its code
  points. \<open>utf8_first\<close> reads the first code point of a byte sequence and returns it with
  the bytes that follow: one byte below 0x80, or a lead byte 0xC2..0xF4 with one to three
  continuation bytes, the second byte restricted after 0xE0, 0xED, 0xF0 and 0xF4 so that
  overlong forms, surrogates and values above 0x10FFFF are rejected.
\<close>

definition in_range :: "nat \<Rightarrow> nat \<Rightarrow> byte \<Rightarrow> bool" where
  "in_range lo hi b = (lo \<le> unat b \<and> unat b < hi)"

fun utf8_first :: "byte list \<Rightarrow> (nat \<times> byte list) option" where
  "utf8_first [] = None"
| "utf8_first (b0 # bs) =
     (if unat b0 < 128 then Some (unat b0, bs)
      else if unat b0 < 194 then None
      else if unat b0 < 224 then
        (case bs of
           b1 # r \<Rightarrow>
             if in_range 128 192 b1
             then Some ((unat b0 - 192) * 64 + (unat b1 - 128), r)
             else None
         | _ \<Rightarrow> None)
      else if unat b0 < 240 then
        (case bs of
           b1 # b2 # r \<Rightarrow>
             if in_range (if unat b0 = 224 then 160 else 128)
                         (if unat b0 = 237 then 160 else 192) b1
                \<and> in_range 128 192 b2
             then Some ((unat b0 - 224) * 4096 + (unat b1 - 128) * 64 + (unat b2 - 128), r)
             else None
         | _ \<Rightarrow> None)
      else if unat b0 < 245 then
        (case bs of
           b1 # b2 # b3 # r \<Rightarrow>
             if in_range (if unat b0 = 240 then 144 else 128)
                         (if unat b0 = 244 then 144 else 192) b1
                \<and> in_range 128 192 b2 \<and> in_range 128 192 b3
             then Some ((unat b0 - 240) * 262144 + (unat b1 - 128) * 4096
                        + (unat b2 - 128) * 64 + (unat b3 - 128), r)
             else None
         | _ \<Rightarrow> None)
      else None)"

function utf8_decode :: "byte list \<Rightarrow> exc + nat list" where
  "utf8_decode [] = Inr []"
| "utf8_decode (b # bs) =
     (case utf8_first (b # bs) of
        None \<Rightarrow> Inl UnicodeDecodeError
      | Some (c, r) \<Rightarrow>
          (case utf8_decode r of
             Inl e \<Rightarrow> Inl e
           | Inr cs \<Rightarrow> Inr (c # cs)))"
  by pat_completeness auto
termination
  by (relation "measure length") (auto split: if_splits list.splits)

definition utf8_encode_cp :: "nat \<Rightarrow> exc + byte list" where
  "utf8_encode_cp c =
     (if c < 128 then Inr [of_nat c]
      else if c < 2048 then Inr [of_nat (192 + c div 64), of_nat (128 + c mod 64)]
      else if c < 65536 then
        (if 55296 \<le> c \<and> c < 57344 then Inl UnicodeEncodeError
         else Inr [of_nat (224 + c div 4096), of_nat (128 + c div 64 mod 64),
                   of_nat (128 + c mod 64)])
      else if c < 1114112 then
        Inr [of_nat (240 + c div 262144), of_nat (128 + c div 4096 mod 64),
             of_nat (128 + c div 64 mod 64), of_nat (128 + c mod 64)]
      else Inl UnicodeEncodeError)"

fun utf8_encode :: "nat list \<Rightarrow> exc + byte list" where
  "utf8_encode [] = Inr []"
| "utf8_encode (c # cs) =
     (case utf8_encode_cp c of
        Inl e \<Rightarrow> Inl e
      | Inr bs \<Rightarrow>
          (case utf8_encode cs of
             Inl e \<Rightarrow> Inl e
           | Inr r \<Rightarrow> Inr (bs @ r)))"

section \<open>Verifying a request\<close>

text \<open>
  The libraries the endpoint calls are outside the repository, so the endpoint is
  modelled over any behaviour of theirs: \<open>verify_key_init\<close> is the constructor
  \<^verbatim>\<open>nacl.signing.VerifyKey(key_bytes)\<close>, \<open>verify_key_verify key message signature\<close> the
  method \<^verbatim>\<open>verify\<close> of the key it built (it returns, or raises BadSignatureError or
  another exception), \<open>json_loads\<close> the JSON decoder behind \<^verbatim>\<open>request.json()\<close>.
\<close>

record library =
  verify_key_init :: "byte list \<Rightarrow> exc + byte list"
  verify_key_verify :: "byte list \<Rightarrow> byte list \<Rightarrow> byte list \<Rightarrow> exc + unit"
  json_loads :: "byte list \<Rightarrow> exc + json"

text \<open>
  The parts of a request the endpoint reads: the two headers (\<^verbatim>\<open>None\<close> when absent; a
  header value is a string of Latin-1 characters) and the raw body.
\<close>

record request =
  signature_header :: "string option"
  timestamp_header :: "string option"
  body :: "byte list"

text \<open>
  \<^verbatim>\<open>None\<close> and the empty string are both false in \<^verbatim>\<open>not signature\<close>, and only a
  header that passed this test is used afterwards.
\<close>

definition header_value :: "string option \<Rightarrow> string" where
  "header_value h = (case h of None \<Rightarrow> [] | Some s \<Rightarrow> s)"

text \<open>\<^verbatim>\<open>f'{timestamp}{body}'.encode()\<close>, the message handed to \<^verbatim>\<open>verify\<close>.\<close>

definition signed_message :: "string \<Rightarrow> nat list \<Rightarrow> exc + byte list" where
  "signed_message timestamp body_str = utf8_encode (map of_char timestamp @ body_str)"

definition or_stop ::
  "exc + 'a \<Rightarrow> ('a \<Rightarrow> event list \<times> outcome option) \<Rightarrow> event list \<times> outcome option" where
  "or_stop m f = (case m of Inl e \<Rightarrow> ([], Some (Raised e)) | Inr x \<Rightarrow> f x)"

text \<open>
  Lines 231 to 249, under the comment \<^verbatim>\<open># Verify the request.\<close> The result is the
  outcome that ends the request there, or \<open>None\<close> when the signature verified. Line 246
  returns the \<^verbatim>\<open>HTTPException\<close> it builds; only BadSignatureError is caught.
\<close>

definition verify_request :: "library \<Rightarrow> gateway \<Rightarrow> request \<Rightarrow> event list \<times> outcome option" where
  "verify_request L gw req =
     or_stop (fromhex (public_key gw)) (\<lambda>key_bytes.
     or_stop (verify_key_init L key_bytes) (\<lambda>verify_key.
       let signature = header_value (signature_header req);
           timestamp = header_value (timestamp_header req)
       in
         if signature = [] \<or> timestamp = [] then
           ([], Some (Raised (HTTPException 401 ''missing request signature'')))
         else
           or_stop (utf8_decode (body req)) (\<lambda>body_str.
           or_stop (signed_message timestamp body_str) (\<lambda>message.
           or_stop (fromhex signature) (\<lambda>sig_bytes.
             (case verify_key_verify L verify_key message sig_bytes of
                Inr u \<Rightarrow> ([Verify message sig_bytes], None)
              | Inl e \<Rightarrow>
                  if e = BadSignatureError then
                    ([Verify message sig_bytes],
                     Some (Returned (ExcObject
                       (HTTPException 401 ''invalid request signature''))))
                  else ([Verify message sig_bytes], Some (Raised e))))))))"

text \<open>The endpoint \<^verbatim>\<open>POST /interaction\<close>: what it calls and how it ends.\<close>

definition interaction :: "library \<Rightarrow> gateway \<Rightarrow> request \<Rightarrow> event list \<times> outcome" where
  "interaction L gw req =
     (case verify_request L gw req of
        (tr, Some out) \<Rightarrow> (tr, out)
      | (tr, None) \<Rightarrow>
          (case json_loads L (body req) of
             Inl e \<Rightarrow> (tr @ [JsonLoads], Raised e)
           | Inr payload \<Rightarrow>
               (case process_request gw payload of
                  (cs, out) \<Rightarrow> (tr @ JsonLoads # cs, out))))"

section \<open>The calls of a routed interaction\<close>

text \<open>
  The lifecycle handlers of a routed interaction, each with the event it is registered
  for: the handlers held for \<^verbatim>\<open>interaction_receive\<close> in the order of their list, then
  the handlers held for the event of the interaction's kind. \<open>fired\<close> is the calls of
  such a list, each handler with the facade of the payload as its only argument, and
  \<open>all_return\<close> says that none of them raises on that argument.
\<close>

definition lifecycle :: "handler list \<Rightarrow> string \<Rightarrow> handler list \<Rightarrow> (string \<times> handler) list" where
  "lifecycle hs1 kind hs2 = map (Pair ''interaction_receive'') hs1 @ map (Pair kind) hs2"

definition fired :: "(string \<times> handler) list \<Rightarrow> json \<Rightarrow> event list" where
  "fired lc p = map (\<lambda>nh. Fire (fst nh) (hname (snd nh)) [Interaction p]) lc"

definition all_return :: "(string \<times> handler) list \<Rightarrow> json \<Rightarrow> bool" where
  "all_return lc p =
     list_all (\<lambda>nh. case hbody (snd nh) [Interaction p] of Inl e \<Rightarrow> False | Inr v \<Rightarrow> True) lc"

section \<open>A client, a library and requests to evaluate the endpoint on\<close>

text \<open>
  A public key of 32 zero bytes; a library whose key constructor wants 32 bytes, as
  PyNaCl's does, whose \<^verbatim>\<open>verify\<close> wants a signature of 64 bytes and accepts the ones
  that start with the byte 1, and whose JSON decoder yields a given payload; requests
  with the timestamp \<^verbatim>\<open>17\<close> and the body \<^verbatim>\<open>{}\<close>; handlers that return a value or raise.
\<close>

definition example_key :: string where
  "example_key = ''0000000000000000000000000000000000000000000000000000000000000000''"

definition good_signature :: string where
  "good_signature = ''01000000000000000000000000000000000000000000000000000000000000000000000000000000000000000000000000000000000000000000000000000000''"

definition bad_signature :: string where
  "bad_signature = ''00000000000000000000000000000000000000000000000000000000000000000000000000000000000000000000000000000000000000000000000000000000''"

definition stub_library :: "json \<Rightarrow> library" where
  "stub_library p =
     \<lparr>verify_key_init = (\<lambda>k. if length k = 32 then Inr k else Inl ValueError),
      verify_key_verify =
        (\<lambda>k m s. if length s = 64
                  then (if take 1 s = [1] then Inr () else Inl BadSignatureError)
                  else Inl ValueError),
      json_loads = (\<lambda>b. Inr p)\<rparr>"

definition example_request :: "string \<Rightarrow> request" where
  "example_request sg =
     \<lparr>signature_header = Some sg, timestamp_header = Some ''17'', body = [0x7B, 0x7D]\<rparr>"

definition example_message :: "byte list" where
  "example_message = [0x31, 0x37, 0x7B, 0x7D]"

definition returning :: "string \<Rightarrow> json \<Rightarrow> handler" where
  "returning name v = \<lparr>hname = name, hbody = (\<lambda>args. Inr v)\<rparr>"

definition failing :: "string \<Rightarrow> handler" where
  "failing name = \<lparr>hname = name, hbody = (\<lambda>args. Inl (HandlerFailure name))\<rparr>"

text \<open>
  A client with one registered command, \<^verbatim>\<open>greet\<close>; a command payload with the two
  options of the specification's example; a ping; a request without the timestamp header.
\<close>

definition greet_client :: gateway where
  "greet_client =
     (new_client example_key)\<lparr>commands := [''greet'' \<mapsto> returning ''greet'' (JStr ''hi'')]\<rparr>"

definition greet_payload :: json where
  "greet_payload =
     JObj [(''type'', JInt 2),
           (''data'', JObj [(''name'', JStr ''greet''),
              (''options'', JArr [JObj [(''name'', JStr ''first''), (''value'', JStr ''a'')],
                                  JObj [(''name'', JStr ''second''), (''value'', JStr ''b'')]])])]"

definition ping_payload :: json where
  "ping_payload = JObj [(''type'', JInt 1)]"

definition no_timestamp_request :: request where
  "no_timestamp_request =
     \<lparr>signature_header = Some good_signature, timestamp_header = None, body = [0x7B, 0x7D]\<rparr>"

text \<open>
  A client with a button, a command, a menu, one handler of \<^verbatim>\<open>interaction_receive\<close> and
  one of \<^verbatim>\<open>command_receive\<close>, and the payloads sent to it.
\<close>

definition lively_client :: gateway where
  "lively_client =
     (new_client example_key)
       \<lparr>buttons := [''ok'' \<mapsto> returning ''on_ok'' (JStr ''clicked'')],
        commands := [''greet'' \<mapsto> returning ''greet'' (JStr ''hi'')],
        events := [''interaction_receive'' \<mapsto> PyList [returning ''audit'' JNull],
                   ''command_receive'' \<mapsto> PyList [returning ''count'' JNull]],
        menus := [''menu1'' \<mapsto> returning ''on_menu'' (JStr ''chosen'')]\<rparr>"

definition plain_greet_payload :: json where
  "plain_greet_payload =
     JObj [(''type'', JInt 2), (''data'', JObj [(''name'', JStr ''greet'')])]"

definition unknown_command_payload :: json where
  "unknown_command_payload =
     JObj [(''type'', JInt 2), (''data'', JObj [(''name'', JStr ''nope'')])]"

definition xy_menu_payload :: json where
  "xy_menu_payload =
     JObj [(''type'', JInt 3),
           (''data'', JObj [(''component_type'', JInt 3), (''custom_id'', JStr ''menu1''),
                            (''values'', JArr [JStr ''x'', JStr ''y''])])]"

definition button_payload :: json where
  "button_payload =
     JObj [(''type'', JInt 3),
           (''data'', JObj [(''component_type'', JInt 2), (''custom_id'', JStr ''ok'')])]"

definition opt1_menu_payload :: json where
  "opt1_menu_payload =
     JObj [(''type'', JInt 3),
           (''data'', JObj [(''component_type'', JInt 3), (''custom_id'', JStr ''menu1''),
                            (''values'', JArr [JStr ''opt1''])])]"

definition empty_values_payload :: json where
  "empty_values_payload =
     JObj [(''type'', JInt 3),
           (''data'', JObj [(''component_type'', JInt 3), (''custom_id'', JStr ''menu1''),
                            (''values'', JArr [])])]"

definition no_values_payload :: json where
  "no_values_payload =
     JObj [(''type'', JInt 3),
           (''data'', JObj [(''component_type'', JInt 3), (''custom_id'', JStr ''menu1'')])]"

text \<open>
  A handler that answers with the list of the arguments it was called with, the facade
  shown as an object holding its payload. A client whose routed handlers are of this
  kind, with two handlers of \<^verbatim>\<open>interaction_receive\<close>, two of \<^verbatim>\<open>command_receive\<close>,
  one of \<^verbatim>\<open>menu_select\<close> and none of \<^verbatim>\<open>button_click\<close>; and the same client with
  lifecycle handlers that raise.
\<close>

fun shown :: "arg \<Rightarrow> json" where
  "shown (Interaction p) = JObj [(''interaction'', p)]"
| "shown (Plain v) = v"

definition echo :: "string \<Rightarrow> handler" where
  "echo name = \<lparr>hname = name, hbody = (\<lambda>args. Inr (JArr (map shown args)))\<rparr>"

definition busy_client :: gateway where
  "busy_client =
     (new_client example_key)
       \<lparr>buttons := [''ok'' \<mapsto> echo ''on_ok''],
        commands := [''greet'' \<mapsto> echo ''greet''],
        events := [''interaction_receive'' \<mapsto>
                     PyList [returning ''audit'' JNull, returning ''trace'' JNull],
                   ''command_receive'' \<mapsto>
                     PyList [returning ''count'' JNull, returning ''log'' JNull],
                   ''menu_select'' \<mapsto> PyList [returning ''picked'' JNull]],
        menus := [''menu1'' \<mapsto> echo ''on_menu'']\<rparr>"

definition faulty_client :: gateway where
  "faulty_client =
     busy_client
       \<lparr>events := [''interaction_receive'' \<mapsto> PyList [returning ''audit'' JNull],
                   ''command_receive'' \<mapsto>
                     PyList [returning ''count'' JNull, failing ''broken'',
                             returning ''late'' JNull],
                   ''menu_select'' \<mapsto> PyList [failing ''broken'', returning ''late'' JNull],
                   ''button_click'' \<mapsto> PyList [failing ''broken'']]\<rparr>"


section \<open>Evaluating the examples\<close>

lemma hex_digit_0 [simp]: "hex_digit CHR ''0'' = Some 0"
  by (simp add: hex_digit_def)

lemma hex_digit_1 [simp]: "hex_digit CHR ''1'' = Some 1"
  by (simp add: hex_digit_def)

lemma not_space_0 [simp]: "\<not> is_space CHR ''0''"
  by (simp add: is_space_def)

lemma fromhex_00 [simp]: "fromhex (CHR ''0'' # CHR ''0'' # cs) = map_sum id ((#) 0) (fromhex cs)"
  by (simp split: sum.splits)

lemma fromhex_01 [simp]: "fromhex (CHR ''0'' # CHR ''1'' # cs) = map_sum id ((#) 1) (fromhex cs)"
  by (simp split: sum.splits)

lemma fromhex_example_key: "fromhex example_key = Inr (replicate 32 0)"
  unfolding example_key_def by (simp del: fromhex.simps add: fromhex.simps(1) numeral_eq_Suc)

lemma fromhex_good_signature: "fromhex good_signature = Inr (1 # replicate 63 0)"
  unfolding good_signature_def by (simp del: fromhex.simps add: fromhex.simps(1) numeral_eq_Suc)

lemma fromhex_bad_signature: "fromhex bad_signature = Inr (replicate 64 0)"
  unfolding bad_signature_def by (simp del: fromhex.simps add: fromhex.simps(1) numeral_eq_Suc)

lemma utf8_decode_example: "utf8_decode [0x7B, 0x7D] = Inr [123, 125]"
  by simp

lemma signed_message_example: "signed_message ''17'' [123, 125] = Inr example_message"
  by (simp add: signed_message_def utf8_encode_cp_def example_message_def)

lemma signatures_nonempty: "good_signature \<noteq> []" "bad_signature \<noteq> []"
  by (simp_all add: good_signature_def bad_signature_def)

lemma verify_example_good:
  "public_key gw = example_key \<Longrightarrow>
   verify_request (stub_library p) gw (example_request good_signature)
     = ([Verify example_message (1 # replicate 63 0)], None)"
  by (simp add: verify_request_def or_stop_def fromhex_example_key fromhex_good_signature
      stub_library_def example_request_def header_value_def utf8_decode_example
      signed_message_example signatures_nonempty
      del: utf8_decode.simps fromhex.simps)

lemma verify_example_bad:
  "public_key gw = example_key \<Longrightarrow>
   verify_request (stub_library p) gw (example_request bad_signature)
     = ([Verify example_message (replicate 64 0)],
        Some (Returned (ExcObject (HTTPException 401 ''invalid request signature''))))"
  by (simp add: verify_request_def or_stop_def fromhex_example_key fromhex_bad_signature
      stub_library_def example_request_def header_value_def utf8_decode_example
      signed_message_example signatures_nonempty
      del: utf8_decode.simps fromhex.simps)

section \<open>Registration of lifecycle handlers\<close>

text \<open>
  Claim C3: lifecycle registration is list-valued, registering n handlers for an event
  yields a registry holding all n in insertion order, and dispatch invokes every one of
  them in that order. The code does not do this for n = 2: on a fresh client, the second
  \<^verbatim>\<open>on(event)\<close> stores the result of \<^verbatim>\<open>list.append\<close>, which is \<^verbatim>\<open>None\<close>, so the
  registry holds neither handler and a dispatch fires nothing for that event.
\<close>

theorem on_twice_loses_both_handlers:
  "events (on (on (new_client pk) ev f1) ev f2) ev = Some PyNone
   \<and> event_handlers (on (on (new_client pk) ev f1) ev f2) ev = []
   \<and> fire ev (event_handlers (on (on (new_client pk) ev f1) ev f2) ev) p = ([], None)"
  by (simp add: on_def new_client_def event_handlers_def)

section \<open>Interaction types outside the handled ones\<close>

text \<open>
  Claim C2: a payload type outside all recognised ranges is answered with HTTP 400, a
  known but unimplemented one with the 200 default response. In the code the test
  \<^verbatim>\<open>type >= 4 or type < 12\<close> holds for every integer, so the types 0 and 12 get the
  200 response \<^verbatim>\<open>not yet supported\<close> as well, as every integer type does.
\<close>

theorem type_out_of_range_not_rejected:
  "process_request gw (JObj [(''type'', JInt 0)]) = not_supported
   \<and> process_request gw (JObj [(''type'', JInt 12)]) = not_supported
   \<and> fst (http_response (snd not_supported)) = 200"
  by (simp add: process_request_def or_raise_def py_eq_int_def py_ge_int_def py_lt_int_def
      not_supported_def)

section \<open>Facts about the two phases\<close>

lemma public_key_new_client [simp]: "public_key (new_client pk) = pk"
  by (simp add: new_client_def)

lemma public_key_greet_client [simp]: "public_key greet_client = example_key"
  by (simp add: greet_client_def)

lemma verify_request_registries [simp]:
  "verify_request L (gw\<lparr>buttons := b, commands := c, events := e, menus := m\<rparr>) req
     = verify_request L gw req"
  by (simp add: verify_request_def)

lemma verify_request_passed:
  assumes "verify_request L gw req = (tr, None)"
  shows "\<exists>m s. tr = [Verify m s]"
  using assms
  by (auto simp: verify_request_def or_stop_def Let_def split: sum.splits if_splits)

lemma collect_options_raises: "options \<noteq> [] \<Longrightarrow> \<exists>e. collect_options t options = Inl e"
  by (cases options) (auto simp: tuple_add_def split: sum.splits)

lemma py_iter_truthy: "truthy opts \<Longrightarrow> py_iter opts = Inr options \<Longrightarrow> options \<noteq> []"
  by (cases opts) auto

lemma call_command_with_options_raises:
  assumes "py_get p ''data'' = Inr d" "py_get d ''options'' = Inr opts" "truthy opts"
  shows "\<exists>e. call_command h p = ([], Raised e)"
proof (cases "py_iter opts")
  case (Inl e)
  then show ?thesis using assms by (simp add: call_command_def or_raise_def)
next
  case (Inr options)
  then have "options \<noteq> []" using assms(3) by (rule py_iter_truthy[rotated])
  then obtain e where "collect_options [] options = Inl e"
    using collect_options_raises by blast
  then show ?thesis using assms Inr by (simp add: call_command_def or_raise_def)
qed

section \<open>Command options\<close>

text \<open>
  Claim C4: a command whose \<^verbatim>\<open>data.options\<close> is \<^verbatim>\<open>[{value: "a"}, {value: "b"}]\<close> has its
  handler invoked as \<^verbatim>\<open>handler(interaction, "a", "b")\<close>. The code never makes that call:
  for the registered command \<^verbatim>\<open>greet\<close> and these two options, the first
  \<^verbatim>\<open>input_tuple.__add__((option["value"]))\<close> raises TypeError, the request ends with
  that exception and the trace holds no call of the handler.
\<close>

theorem options_never_reach_the_handler:
  "interaction (stub_library greet_payload) greet_client (example_request good_signature)
     = ([Verify example_message (1 # replicate 63 0), JsonLoads], Raised TypeError)"
  by (simp add: interaction_def verify_example_good)
     (simp add: stub_library_def example_request_def greet_payload_def process_request_def
        or_raise_def py_eq_int_def command_branch_def greet_client_def new_client_def
        with_lifecycle_def event_handlers_def call_command_def tuple_add_def)

section \<open>A signature that does not verify\<close>

text \<open>
  Claim C1: a request whose signature does not verify is answered with HTTP 401 and the
  body \<^verbatim>\<open>{detail: "invalid request signature"}\<close>, and nothing more is done for it. The
  code stops there, but line 246 returns the \<^verbatim>\<open>HTTPException\<close> where line 236 raises
  it, so the response FastAPI sends has the status 200.
\<close>

theorem invalid_signature_is_returned_not_raised:
  "interaction (stub_library ping_payload) (new_client example_key) (example_request bad_signature)
     = ([Verify example_message (replicate 64 0)],
        Returned (ExcObject (HTTPException 401 ''invalid request signature'')))
   \<and> fst (http_response (snd (interaction (stub_library ping_payload) (new_client example_key)
        (example_request bad_signature)))) = 200"
  by (simp add: interaction_def verify_example_bad)

section \<open>Ping\<close>

text \<open>
  Claim C7: a verified request whose payload type is 1 is answered with exactly
  \<^verbatim>\<open>{type: 1}\<close>, whatever the registries hold, with no registry lookup and no lifecycle
  handler fired: the only calls of the request are the signature verification and the
  JSON decoding, and replacing the four registries changes nothing.
\<close>

theorem ping_is_acknowledged:
  assumes "verify_request L gw req = (tr, None)"
    and "json_loads L (body req) = Inr p"
    and "getitem_str p ''type'' = Inr t"
    and "py_eq_int t 1"
  shows "\<exists>m s. tr = [Verify m s]
     \<and> interaction L gw req
         = ([Verify m s, JsonLoads], Returned (Json (JObj [(''type'', JInt 1)])))
     \<and> (\<forall>b c e mn. interaction L (gw\<lparr>buttons := b, commands := c, events := e, menus := mn\<rparr>) req
         = interaction L gw req)
     \<and> http_response (snd (interaction L gw req)) = (200, JObj [(''type'', JInt 1)])"
proof -
  obtain m s where tr: "tr = [Verify m s]"
    using verify_request_passed[OF assms(1)] by blast
  have p: "process_request g p = ([], Returned (Json (JObj [(''type'', JInt 1)])))" for g
    using assms(3,4) by (simp add: process_request_def or_raise_def)
  have "interaction L g req = ([Verify m s, JsonLoads], Returned (Json (JObj [(''type'', JInt 1)])))"
    if "verify_request L g req = (tr, None)" for g
    using that assms(2) p tr by (simp add: interaction_def)
  then show ?thesis using assms(1) tr by simp
qed

text \<open>The ping of the example client.\<close>

theorem ping_is_acknowledged_witness:
  "verify_request (stub_library ping_payload) greet_client (example_request good_signature)
     = ([Verify example_message (1 # replicate 63 0)], None)
   \<and> json_loads (stub_library ping_payload) (body (example_request good_signature)) = Inr ping_payload
   \<and> getitem_str ping_payload ''type'' = Inr (JInt 1)
   \<and> py_eq_int (JInt 1) 1
   \<and> interaction (stub_library ping_payload) greet_client (example_request good_signature)
       = ([Verify example_message (1 # replicate 63 0), JsonLoads],
          Returned (Json (JObj [(''type'', JInt 1)])))"
proof -
  have v: "verify_request (stub_library ping_payload) greet_client (example_request good_signature)
     = ([Verify example_message (1 # replicate 63 0)], None)"
    by (simp add: verify_example_good)
  have j: "json_loads (stub_library ping_payload) (body (example_request good_signature))
     = Inr ping_payload"
    by (simp add: stub_library_def)
  have t: "getitem_str ping_payload ''type'' = Inr (JInt 1)"
    by (simp add: ping_payload_def)
  have e: "py_eq_int (JInt 1) 1"
    by (simp add: py_eq_int_def)
  show ?thesis using ping_is_acknowledged[OF v j t e] v j t e by simp
qed

section \<open>Missing signature headers\<close>

text \<open>
  Claim C6, as amended: on a client whose public key is hexadecimal and accepted by the
  key constructor, a request without the signature or the timestamp header (or with an
  empty one) is answered with HTTP 401 and the body
  \<^verbatim>\<open>{"detail": "missing request signature"}\<close>, and it makes no call at all: no
  signature verification, no JSON decoding.
\<close>

theorem missing_header_is_unauthorized:
  assumes "fromhex (public_key gw) = Inr key_bytes"
    and "verify_key_init L key_bytes = Inr verify_key"
    and "header_value (signature_header req) = [] \<or> header_value (timestamp_header req) = []"
  shows "interaction L gw req = ([], Raised (HTTPException 401 ''missing request signature''))
     \<and> http_response (snd (interaction L gw req))
         = (401, JObj [(''detail'', JStr ''missing request signature'')])"
  using assms by (auto simp: interaction_def verify_request_def or_stop_def)

text \<open>The request without timestamp, on the example client.\<close>

theorem missing_header_is_unauthorized_witness:
  "fromhex (public_key greet_client) = Inr (replicate 32 0)
   \<and> verify_key_init (stub_library ping_payload) (replicate 32 0) = Inr (replicate 32 0)
   \<and> header_value (timestamp_header no_timestamp_request) = []
   \<and> interaction (stub_library ping_payload) greet_client no_timestamp_request
       = ([], Raised (HTTPException 401 ''missing request signature''))
   \<and> http_response (snd (interaction (stub_library ping_payload) greet_client no_timestamp_request))
       = (401, JObj [(''detail'', JStr ''missing request signature'')])"
proof -
  have k: "fromhex (public_key greet_client) = Inr (replicate 32 0)"
    by (simp add: fromhex_example_key)
  have i: "verify_key_init (stub_library ping_payload) (replicate 32 0) = Inr (replicate 32 0)"
    by (simp add: stub_library_def)
  have h: "header_value (signature_header no_timestamp_request) = []
     \<or> header_value (timestamp_header no_timestamp_request) = []"
    by (simp add: no_timestamp_request_def header_value_def)
  have h': "header_value (timestamp_header no_timestamp_request) = []"
    by (simp add: no_timestamp_request_def header_value_def)
  show ?thesis using missing_header_is_unauthorized[OF k i h] k i h' by simp
qed

text \<open>
  Claim C6 as stated fails when the public key is not hexadecimal: line 231 builds the
  verify key before the headers are looked at, so the same request ends with a
  ValueError, a 500.
\<close>

theorem missing_header_with_malformed_key_counterexample:
  "interaction (stub_library ping_payload) (new_client ''zz'') no_timestamp_request
     = ([], Raised ValueError)
   \<and> fst (http_response (snd (interaction (stub_library ping_payload) (new_client ''zz'')
        no_timestamp_request))) = 500"
  by (simp add: interaction_def verify_request_def or_stop_def hex_digit_def is_space_def)

section \<open>Lifecycle handlers and routing\<close>

lemma event_handlers_held:
  assumes "events gw n = Some (PyList hs) \<or> hs = [] \<and> events gw n \<in> {None, Some PyNone}"
  shows "event_handlers gw n = hs"
  using assms by (auto simp: event_handlers_def)

lemma all_return_append: "all_return (xs @ ys) p = (all_return xs p \<and> all_return ys p)"
  by (simp add: all_return_def)

lemma fired_append: "fired (xs @ ys) p = fired xs p @ fired ys p"
  by (simp add: fired_def)

lemma fire_all_return:
  "all_return (map (Pair n) hs) p \<Longrightarrow> fire n hs p = (fired (map (Pair n) hs) p, None)"
  by (induction hs) (auto simp: all_return_def fired_def split: sum.splits)

lemma fire_raises:
  assumes "map (Pair n) hs = pre @ (ev, f) # post"
    and "all_return pre p"
    and "hbody f [Interaction p] = Inl e"
  shows "fire n hs p = (fired (pre @ [(ev, f)]) p, Some e)"
  using assms
proof (induction hs arbitrary: pre)
  case Nil
  then show ?case by simp
next
  case (Cons h hs)
  show ?case
  proof (cases pre)
    case Nil
    then have "h = f" "ev = n" using Cons.prems(1) by auto
    then show ?thesis using Nil Cons.prems(3) by (simp add: fired_def)
  next
    case (Cons x pre')
    then have x: "x = (n, h)" and rest: "map (Pair n) hs = pre' @ (ev, f) # post"
      using Cons.prems(1) by auto
    have pre': "all_return pre' p"
      using Cons.prems(2) Cons by (simp add: all_return_def)
    obtain v where v: "hbody h [Interaction p] = Inr v"
      using Cons.prems(2) Cons x by (auto simp: all_return_def split: sum.splits)
    have "fire n hs p = (fired (pre' @ [(ev, f)]) p, Some e)"
      using Cons.IH[OF rest pre' Cons.prems(3)] .
    then show ?thesis using Cons x v by (simp add: fired_def)
  qed
qed

lemma with_lifecycle_all_return:
  assumes "event_handlers gw ''interaction_receive'' = hs1"
    and "event_handlers gw kind = hs2"
    and "all_return (lifecycle hs1 kind hs2) p"
  shows "with_lifecycle gw kind p rest = (fired (lifecycle hs1 kind hs2) p @ fst rest, snd rest)"
  using assms
  by (simp add: with_lifecycle_def lifecycle_def all_return_append fired_append fire_all_return
      split: prod.splits)

lemma with_lifecycle_raises:
  assumes "event_handlers gw ''interaction_receive'' = hs1"
    and "event_handlers gw kind = hs2"
    and "lifecycle hs1 kind hs2 = pre @ (ev, f) # post"
    and "all_return pre p"
    and "hbody f [Interaction p] = Inl e"
  shows "with_lifecycle gw kind p rest = (fired (pre @ [(ev, f)]) p, Raised e)"
proof -
  let ?m1 = "map (Pair ''interaction_receive'') hs1"
  let ?m2 = "map (Pair kind) hs2"
  have "?m1 @ ?m2 = pre @ (ev, f) # post"
    using assms(3) by (simp add: lifecycle_def)
  then obtain us where
    "?m1 = pre @ us \<and> us @ ?m2 = (ev, f) # post \<or> ?m1 @ us = pre \<and> ?m2 = us @ (ev, f) # post"
    unfolding append_eq_append_conv2 by blast
  then consider (first) us' where "?m1 = pre @ (ev, f) # us'"
    | (second) us where "pre = ?m1 @ us" "?m2 = us @ (ev, f) # post"
    by (cases us) auto
  then show ?thesis
  proof cases
    case first
    have "fire ''interaction_receive'' hs1 p = (fired (pre @ [(ev, f)]) p, Some e)"
      using fire_raises[OF first assms(4,5)] .
    then show ?thesis using assms(1) by (simp add: with_lifecycle_def)
  next
    case second
    have a: "all_return ?m1 p" "all_return us p"
      using assms(4) second(1) by (simp_all add: all_return_append)
    have one: "fire ''interaction_receive'' hs1 p = (fired ?m1 p, None)"
      using fire_all_return[OF a(1)] .
    have two: "fire kind hs2 p = (fired (us @ [(ev, f)]) p, Some e)"
      using fire_raises[OF second(2) a(2) assms(5)] .
    show ?thesis
      using assms(1,2) one two second(1) by (simp add: with_lifecycle_def fired_append)
  qed
qed

lemma interaction_verified:
  assumes "verify_request L gw req = (tr, None)" and "json_loads L (body req) = Inr p"
  shows "interaction L gw req
           = (tr @ JsonLoads # fst (process_request gw p), snd (process_request gw p))"
  using assms by (simp add: interaction_def split: prod.splits)

lemma process_command:
  "getitem_str p ''type'' = Inr t \<Longrightarrow> py_eq_int t 2 \<Longrightarrow>
   process_request gw p = command_branch gw p"
  by (simp add: process_request_def or_raise_def py_eq_int_def)

lemma process_component:
  "getitem_str p ''type'' = Inr t \<Longrightarrow> py_eq_int t 3 \<Longrightarrow>
   process_request gw p = component_branch gw p"
  by (simp add: process_request_def or_raise_def py_eq_int_def)

lemma py_eq_int_2: "py_eq_int (JInt 2) 2"
  by (simp add: py_eq_int_def)

lemma py_eq_int_3: "py_eq_int (JInt 3) 3"
  by (simp add: py_eq_int_def)

lemma py_get_present: "map_of kvs k = Some v \<Longrightarrow> py_get (JObj kvs) k = Inr v"
  by simp

lemma call_command_without_options:
  assumes "py_get p ''data'' = Inr d" and "py_get d ''options'' = Inr opts"
    and "\<not> truthy opts"
  shows "call_command h p = invoke h [Interaction p]"
  using assms by (simp add: call_command_def or_raise_def)

lemma command_branch_unregistered:
  assumes "getitem_str p ''data'' = Inr d" and "getitem_str d ''name'' = Inr (JStr name)"
    and "commands gw name = None"
  shows "command_branch gw p =
     ([], Returned (Json (JObj [(''type'', JInt 4),
        (''data'', JObj [(''content'',
                          JStr ''This command is not registered with Interaction Gateway API.''),
                         (''flags'', JInt 64)])])))"
  using assms by (simp add: command_branch_def or_raise_def default_response_def)

lemma command_branch_registered:
  assumes "getitem_str p ''data'' = Inr d" and "getitem_str d ''name'' = Inr (JStr name)"
    and "commands gw name = Some h"
  shows "command_branch gw p = with_lifecycle gw ''command_receive'' p (call_command h p)"
  using assms by (simp add: command_branch_def or_raise_def)

lemma invoke_parts:
  "fst (invoke h args) = [Invoke (hname h) args]"
  "snd (invoke h args) = (case hbody h args of Inl e \<Rightarrow> Raised e | Inr v \<Rightarrow> Returned (Json v))"
  by (simp_all add: invoke_def)

lemma public_key_lively_client [simp]: "public_key lively_client = example_key"
  by (simp add: lively_client_def)

lemma public_key_busy_client [simp]: "public_key busy_client = example_key"
  by (simp add: busy_client_def)

lemma public_key_faulty_client [simp]: "public_key faulty_client = example_key"
  by (simp add: faulty_client_def)

lemma json_loads_stub [simp]: "json_loads (stub_library p) b = Inr p"
  by (simp add: stub_library_def)

lemma lively_handlers:
  "event_handlers lively_client ''interaction_receive'' = [returning ''audit'' JNull]"
  "event_handlers lively_client ''command_receive'' = [returning ''count'' JNull]"
  "event_handlers lively_client ''menu_select'' = []"
  "event_handlers lively_client ''button_click'' = []"
  by (simp_all add: lively_client_def event_handlers_def new_client_def)

lemma lively_registries:
  "commands lively_client ''greet'' = Some (returning ''greet'' (JStr ''hi''))"
  "commands lively_client ''nope'' = None"
  "menus lively_client ''menu1'' = Some (returning ''on_menu'' (JStr ''chosen''))"
  "buttons lively_client ''ok'' = Some (returning ''on_ok'' (JStr ''clicked''))"
  by (simp_all add: lively_client_def new_client_def)

lemma busy_events:
  "events busy_client ''interaction_receive''
     = Some (PyList [returning ''audit'' JNull, returning ''trace'' JNull])"
  "events busy_client ''command_receive''
     = Some (PyList [returning ''count'' JNull, returning ''log'' JNull])"
  "events busy_client ''menu_select'' = Some (PyList [returning ''picked'' JNull])"
  "events busy_client ''button_click'' = None"
  by (simp_all add: busy_client_def new_client_def)

lemma busy_registries:
  "commands busy_client ''greet'' = Some (echo ''greet'')"
  "commands busy_client ''nope'' = None"
  "menus busy_client ''menu1'' = Some (echo ''on_menu'')"
  "buttons busy_client ''ok'' = Some (echo ''on_ok'')"
  by (simp_all add: busy_client_def new_client_def)

lemma faulty_events:
  "events faulty_client ''interaction_receive'' = Some (PyList [returning ''audit'' JNull])"
  "events faulty_client ''command_receive''
     = Some (PyList [returning ''count'' JNull, failing ''broken'', returning ''late'' JNull])"
  "events faulty_client ''menu_select''
     = Some (PyList [failing ''broken'', returning ''late'' JNull])"
  "events faulty_client ''button_click'' = Some (PyList [failing ''broken''])"
  by (simp_all add: faulty_client_def)

lemma faulty_registries:
  "commands faulty_client ''greet'' = Some (echo ''greet'')"
  "menus faulty_client ''menu1'' = Some (echo ''on_menu'')"
  "buttons faulty_client ''ok'' = Some (echo ''on_ok'')"
  by (simp_all add: faulty_client_def busy_client_def new_client_def)

lemma verify_examples:
  "verify_request (stub_library q) lively_client (example_request good_signature)
     = ([Verify example_message (1 # replicate 63 0)], None)"
  "verify_request (stub_library q) busy_client (example_request good_signature)
     = ([Verify example_message (1 # replicate 63 0)], None)"
  "verify_request (stub_library q) faulty_client (example_request good_signature)
     = ([Verify example_message (1 # replicate 63 0)], None)"
  by (simp_all add: verify_example_good)

lemma verify_lively:
  "verify_request (stub_library q) lively_client (example_request good_signature)
     = ([Verify example_message (1 # replicate 63 0)], None)"
  by (simp add: verify_example_good)

section \<open>Commands\<close>

text \<open>
  Claim C8, for a verified command request (type 2) with the command name \<open>name\<close>, on a
  client whose registry of lifecycle events holds the handlers \<open>hs1\<close> for
  \<^verbatim>\<open>interaction_receive\<close> and \<open>hs2\<close> for \<^verbatim>\<open>command_receive\<close> (no handler when the event
  has no list).

  \<^item> When the name is in no registry, the response is the default
    \<^verbatim>\<open>not registered\<close> message and no handler is called.
  \<^item> When the name is registered and no lifecycle handler raises, every handler of
    \<open>hs1\<close> is called, then every handler of \<open>hs2\<close>, each with the facade of the payload,
    and only then the command handler, whose result is the response. With options that
    are not empty the lifecycle handlers are called as well, and the request then ends
    with an exception before the command handler is reached.
  \<^item> When a lifecycle handler raises, the handlers before it have been called, no
    handler after it is, and the request ends with its exception.
\<close>

theorem command_routing:
  assumes "verify_request L gw req = (tr, None)"
    and "json_loads L (body req) = Inr p"
    and "p = JObj kvs"
    and "map_of kvs ''type'' = Some (JInt 2)"
    and "map_of kvs ''data'' = Some (JObj dkvs)"
    and "map_of dkvs ''name'' = Some (JStr name)"
    and "events gw ''interaction_receive'' = Some (PyList hs1)
         \<or> hs1 = [] \<and> events gw ''interaction_receive'' \<in> {None, Some PyNone}"
    and "events gw ''command_receive'' = Some (PyList hs2)
         \<or> hs2 = [] \<and> events gw ''command_receive'' \<in> {None, Some PyNone}"
  shows "(commands gw name = None \<longrightarrow>
            interaction L gw req =
              (tr @ [JsonLoads],
               Returned (Json (JObj [(''type'', JInt 4),
                 (''data'', JObj [(''content'',
                      JStr ''This command is not registered with Interaction Gateway API.''),
                    (''flags'', JInt 64)])]))))
       \<and> (commands gw name = Some h
            \<and> all_return (lifecycle hs1 ''command_receive'' hs2) p
            \<and> (map_of dkvs ''options'' = None
                 \<or> (\<exists>v. map_of dkvs ''options'' = Some v \<and> \<not> truthy v)) \<longrightarrow>
            interaction L gw req =
              (tr @ JsonLoads # fired (lifecycle hs1 ''command_receive'' hs2) p
                 @ [Invoke (hname h) [Interaction p]],
               (case hbody h [Interaction p] of
                  Inl e \<Rightarrow> Raised e | Inr v \<Rightarrow> Returned (Json v))))
       \<and> (commands gw name = Some h
            \<and> all_return (lifecycle hs1 ''command_receive'' hs2) p
            \<and> map_of dkvs ''options'' = Some opts \<and> truthy opts \<longrightarrow>
            (\<exists>e. interaction L gw req =
              (tr @ JsonLoads # fired (lifecycle hs1 ''command_receive'' hs2) p, Raised e)))
       \<and> (commands gw name = Some h
            \<and> lifecycle hs1 ''command_receive'' hs2 = pre @ (ev, f) # post
            \<and> all_return pre p
            \<and> hbody f [Interaction p] = Inl x \<longrightarrow>
            interaction L gw req = (tr @ JsonLoads # fired (pre @ [(ev, f)]) p, Raised x))"
proof -
  note iv = interaction_verified[OF assms(1,2)]
  have type: "getitem_str p ''type'' = Inr (JInt 2)"
    and data: "getitem_str p ''data'' = Inr (JObj dkvs)"
    and data': "py_get p ''data'' = Inr (JObj dkvs)"
    and name: "getitem_str (JObj dkvs) ''name'' = Inr (JStr name)"
    using assms(3,4,5,6) by simp_all
  note pc = process_command[OF type py_eq_int_2]
  note h1 = event_handlers_held[OF assms(7)]
  note h2 = event_handlers_held[OF assms(8)]
  let ?lc = "lifecycle hs1 ''command_receive'' hs2"
  have unregistered: "interaction L gw req =
      (tr @ [JsonLoads],
       Returned (Json (JObj [(''type'', JInt 4),
         (''data'', JObj [(''content'',
              JStr ''This command is not registered with Interaction Gateway API.''),
            (''flags'', JInt 64)])])))"
    if "commands gw name = None"
    using iv pc command_branch_unregistered[OF data name that] by simp
  have registered: "interaction L gw req
      = (tr @ JsonLoads # fst (with_lifecycle gw ''command_receive'' p (call_command h p)),
         snd (with_lifecycle gw ''command_receive'' p (call_command h p)))"
    if "commands gw name = Some h"
    using iv pc command_branch_registered[OF data name that] by simp
  have plain: "interaction L gw req =
      (tr @ JsonLoads # fired ?lc p @ [Invoke (hname h) [Interaction p]],
       (case hbody h [Interaction p] of Inl e \<Rightarrow> Raised e | Inr v \<Rightarrow> Returned (Json v)))"
    if reg: "commands gw name = Some h" and ret: "all_return ?lc p"
      and none: "map_of dkvs ''options'' = None
                 \<or> (\<exists>v. map_of dkvs ''options'' = Some v \<and> \<not> truthy v)"
  proof -
    obtain opts where o: "py_get (JObj dkvs) ''options'' = Inr opts" "\<not> truthy opts"
      using none by auto
    have "call_command h p = invoke h [Interaction p]"
      using call_command_without_options[OF data' o] .
    then show ?thesis
      using registered[OF reg] with_lifecycle_all_return[OF h1 h2 ret]
      by (simp add: invoke_parts)
  qed
  have with_options: "\<exists>e. interaction L gw req = (tr @ JsonLoads # fired ?lc p, Raised e)"
    if reg: "commands gw name = Some h" and ret: "all_return ?lc p"
      and some: "map_of dkvs ''options'' = Some opts" and full: "truthy opts"
  proof -
    obtain e where "call_command h p = ([], Raised e)"
      using call_command_with_options_raises[OF data' py_get_present[OF some] full]
      by blast
    then show ?thesis
      using registered[OF reg] with_lifecycle_all_return[OF h1 h2 ret] by simp
  qed
  have raised: "interaction L gw req = (tr @ JsonLoads # fired (pre @ [(ev, f)]) p, Raised x)"
    if "commands gw name = Some h" "?lc = pre @ (ev, f) # post" "all_return pre p"
      "hbody f [Interaction p] = Inl x"
    using registered[OF that(1)] with_lifecycle_raises[OF h1 h2 that(2,3,4)] by simp
  show ?thesis
  proof (intro conjI impI)
    assume "commands gw name = None"
    then show "interaction L gw req =
      (tr @ [JsonLoads],
       Returned (Json (JObj [(''type'', JInt 4),
         (''data'', JObj [(''content'',
              JStr ''This command is not registered with Interaction Gateway API.''),
            (''flags'', JInt 64)])])))"
      by (rule unregistered)
  next
    assume "commands gw name = Some h \<and> all_return ?lc p
        \<and> (map_of dkvs ''options'' = None
             \<or> (\<exists>v. map_of dkvs ''options'' = Some v \<and> \<not> truthy v))"
    then show "interaction L gw req =
      (tr @ JsonLoads # fired ?lc p @ [Invoke (hname h) [Interaction p]],
       (case hbody h [Interaction p] of Inl e \<Rightarrow> Raised e | Inr v \<Rightarrow> Returned (Json v)))"
      using plain by blast
  next
    assume "commands gw name = Some h \<and> all_return ?lc p
        \<and> map_of dkvs ''options'' = Some opts \<and> truthy opts"
    then show "\<exists>e. interaction L gw req = (tr @ JsonLoads # fired ?lc p, Raised e)"
      using with_options by blast
  next
    assume "commands gw name = Some h \<and> ?lc = pre @ (ev, f) # post \<and> all_return pre p
        \<and> hbody f [Interaction p] = Inl x"
    then show "interaction L gw req = (tr @ JsonLoads # fired (pre @ [(ev, f)]) p, Raised x)"
      using raised by blast
  qed
qed

text \<open>
  On the example client: \<^verbatim>\<open>greet\<close> without options has the two handlers of
  \<^verbatim>\<open>interaction_receive\<close> called, then the two of \<^verbatim>\<open>command_receive\<close>, then the command
  with the facade alone; an unregistered name calls nothing; \<^verbatim>\<open>greet\<close> with options
  stops after the lifecycle handlers; and a handler of \<^verbatim>\<open>command_receive\<close> that raises
  ends the request before the handler after it and before the command.
\<close>

theorem command_routing_witness:
  "interaction (stub_library plain_greet_payload) busy_client (example_request good_signature)
     = ([Verify example_message (1 # replicate 63 0), JsonLoads,
         Fire ''interaction_receive'' ''audit'' [Interaction plain_greet_payload],
         Fire ''interaction_receive'' ''trace'' [Interaction plain_greet_payload],
         Fire ''command_receive'' ''count'' [Interaction plain_greet_payload],
         Fire ''command_receive'' ''log'' [Interaction plain_greet_payload],
         Invoke ''greet'' [Interaction plain_greet_payload]],
        Returned (Json (JArr [JObj [(''interaction'', plain_greet_payload)]])))
   \<and> interaction (stub_library unknown_command_payload) busy_client
       (example_request good_signature)
     = ([Verify example_message (1 # replicate 63 0), JsonLoads],
        Returned (Json (JObj [(''type'', JInt 4),
          (''data'', JObj [(''content'',
               JStr ''This command is not registered with Interaction Gateway API.''),
             (''flags'', JInt 64)])])))
   \<and> (\<exists>e. interaction (stub_library greet_payload) busy_client (example_request good_signature)
     = ([Verify example_message (1 # replicate 63 0), JsonLoads,
         Fire ''interaction_receive'' ''audit'' [Interaction greet_payload],
         Fire ''interaction_receive'' ''trace'' [Interaction greet_payload],
         Fire ''command_receive'' ''count'' [Interaction greet_payload],
         Fire ''command_receive'' ''log'' [Interaction greet_payload]],
        Raised e))
   \<and> interaction (stub_library plain_greet_payload) faulty_client
       (example_request good_signature)
     = ([Verify example_message (1 # replicate 63 0), JsonLoads,
         Fire ''interaction_receive'' ''audit'' [Interaction plain_greet_payload],
         Fire ''command_receive'' ''count'' [Interaction plain_greet_payload],
         Fire ''command_receive'' ''broken'' [Interaction plain_greet_payload]],
        Raised (HandlerFailure ''broken''))"
proof -
  let ?plain = "[(''type'', JInt 2), (''data'', JObj [(''name'', JStr ''greet'')])]"
  let ?unknown = "[(''type'', JInt 2), (''data'', JObj [(''name'', JStr ''nope'')])]"
  let ?options = "JArr [JObj [(''name'', JStr ''first''), (''value'', JStr ''a'')],
                        JObj [(''name'', JStr ''second''), (''value'', JStr ''b'')]]"
  let ?with = "[(''type'', JInt 2),
                (''data'', JObj [(''name'', JStr ''greet''), (''options'', ?options)])]"
  have plain:
    "map_of ?plain ''type'' = Some (JInt 2)"
    "map_of ?plain ''data'' = Some (JObj [(''name'', JStr ''greet'')])"
    "map_of [(''name'', JStr ''greet'')] ''name'' = Some (JStr ''greet'')"
    by simp_all
  have unknown:
    "map_of ?unknown ''type'' = Some (JInt 2)"
    "map_of ?unknown ''data'' = Some (JObj [(''name'', JStr ''nope'')])"
    "map_of [(''name'', JStr ''nope'')] ''name'' = Some (JStr ''nope'')"
    by simp_all
  have options:
    "map_of ?with ''type'' = Some (JInt 2)"
    "map_of ?with ''data'' = Some (JObj [(''name'', JStr ''greet''), (''options'', ?options)])"
    "map_of [(''name'', JStr ''greet''), (''options'', ?options)] ''name'' = Some (JStr ''greet'')"
    by simp_all
  note a = command_routing[where h = "echo ''greet''",
      OF verify_examples(2) json_loads_stub plain_greet_payload_def plain
         disjI1[OF busy_events(1)] disjI1[OF busy_events(2)]]
  note b = command_routing[
      OF verify_examples(2) json_loads_stub unknown_command_payload_def unknown
         disjI1[OF busy_events(1)] disjI1[OF busy_events(2)]]
  note c = command_routing[where h = "echo ''greet''" and opts = ?options,
      OF verify_examples(2) json_loads_stub greet_payload_def options
         disjI1[OF busy_events(1)] disjI1[OF busy_events(2)]]
  note d = command_routing[where h = "echo ''greet''"
        and pre = "[(''interaction_receive'', returning ''audit'' JNull),
                    (''command_receive'', returning ''count'' JNull)]"
        and ev = "''command_receive''" and f = "failing ''broken''"
        and post = "[(''command_receive'', returning ''late'' JNull)]"
        and x = "HandlerFailure ''broken''",
      OF verify_examples(3) json_loads_stub plain_greet_payload_def plain
         disjI1[OF faulty_events(1)] disjI1[OF faulty_events(2)]]
  have "interaction (stub_library plain_greet_payload) busy_client
      (example_request good_signature)
     = ([Verify example_message (1 # replicate 63 0), JsonLoads,
         Fire ''interaction_receive'' ''audit'' [Interaction plain_greet_payload],
         Fire ''interaction_receive'' ''trace'' [Interaction plain_greet_payload],
         Fire ''command_receive'' ''count'' [Interaction plain_greet_payload],
         Fire ''command_receive'' ''log'' [Interaction plain_greet_payload],
         Invoke ''greet'' [Interaction plain_greet_payload]],
        Returned (Json (JArr [JObj [(''interaction'', plain_greet_payload)]])))"
    using a
    by (simp add: busy_registries lifecycle_def all_return_def fired_def returning_def echo_def)
  moreover have "interaction (stub_library unknown_command_payload) busy_client
       (example_request good_signature)
     = ([Verify example_message (1 # replicate 63 0), JsonLoads],
        Returned (Json (JObj [(''type'', JInt 4),
          (''data'', JObj [(''content'',
               JStr ''This command is not registered with Interaction Gateway API.''),
             (''flags'', JInt 64)])])))"
    using b by (simp add: busy_registries)
  moreover have "\<exists>e. interaction (stub_library greet_payload) busy_client
      (example_request good_signature)
     = ([Verify example_message (1 # replicate 63 0), JsonLoads,
         Fire ''interaction_receive'' ''audit'' [Interaction greet_payload],
         Fire ''interaction_receive'' ''trace'' [Interaction greet_payload],
         Fire ''command_receive'' ''count'' [Interaction greet_payload],
         Fire ''command_receive'' ''log'' [Interaction greet_payload]],
        Raised e)"
    using c
    by (simp add: busy_registries lifecycle_def all_return_def fired_def returning_def echo_def)
  moreover have "interaction (stub_library plain_greet_payload) faulty_client
       (example_request good_signature)
     = ([Verify example_message (1 # replicate 63 0), JsonLoads,
         Fire ''interaction_receive'' ''audit'' [Interaction plain_greet_payload],
         Fire ''command_receive'' ''count'' [Interaction plain_greet_payload],
         Fire ''command_receive'' ''broken'' [Interaction plain_greet_payload]],
        Raised (HandlerFailure ''broken''))"
    using d
    by (simp add: faulty_registries lifecycle_def all_return_def fired_def returning_def
        failing_def echo_def)
  ultimately show ?thesis by simp
qed

section \<open>Components\<close>

lemma menu_value_of_list:
  "getitem_str d ''values'' = Inr (JArr xs) \<Longrightarrow>
   menu_value d = Inr (case xs of [] \<Rightarrow> JNull | x # rest \<Rightarrow> x)"
  by (cases xs) (simp_all add: menu_value_def)

lemma menu_value_falsy:
  "getitem_str d ''values'' = Inr vs \<Longrightarrow> \<not> truthy vs \<Longrightarrow> menu_value d = Inr JNull"
  by (simp add: menu_value_def)

lemma component_menu:
  assumes "getitem_str p ''data'' = Inr d"
    and "getitem_str d ''component_type'' = Inr ct"
    and "is_select_menu ct"
    and "menu_value d = Inr value"
  shows "component_branch gw p = route_menu gw p d"
  using assms by (simp add: component_branch_def or_raise_def)

lemma route_menu_registered:
  assumes "getitem_str d ''custom_id'' = Inr (JStr cid)"
    and "menus gw cid = Some h"
    and "getitem_str d ''values'' = Inr vs"
  shows "route_menu gw p d = with_lifecycle gw ''menu_select'' p (invoke h [Interaction p, Plain vs])"
  using assms by (simp add: route_menu_def or_raise_def)

lemma component_button:
  assumes "getitem_str p ''data'' = Inr d"
    and "getitem_str d ''component_type'' = Inr ct"
    and "\<not> is_select_menu ct"
    and "getitem_str d ''custom_id'' = Inr (JStr cid)"
    and "buttons gw cid = Some h"
  shows "component_branch gw p = with_lifecycle gw ''button_click'' p (invoke h [Interaction p])"
  using assms by (simp add: component_branch_def route_button_def or_raise_def)

lemma select_menu_codes: "is_select_menu (JInt 3)" "\<not> is_select_menu (JInt 2)"
  by (simp_all add: is_select_menu_def py_eq_int_def)

lemma is_select_menu_int: "is_select_menu (JInt k) = (3 \<le> k \<and> k \<le> 8)"
  by (auto simp: is_select_menu_def py_eq_int_def)

text \<open>
  Claim C9, for a verified component interaction (type 3) with an integer component type
  and the identifier \<open>cid\<close>, on a client whose registry of lifecycle events holds the
  handlers \<open>hs1\<close> for \<^verbatim>\<open>interaction_receive\<close>, \<open>hsm\<close> for \<^verbatim>\<open>menu_select\<close> and \<open>hsb\<close> for
  \<^verbatim>\<open>button_click\<close>.

  \<^item> A select menu (component types 3 to 8) registered under \<open>cid\<close>, with a list of
    values: when no lifecycle handler raises, the lifecycle handlers are called, then the
    menu handler with two arguments, the facade and the whole list of values, and the
    response is what the handler does on these two arguments.
  \<^item> Any other component type is a button: the handler registered under \<open>cid\<close> is called
    with the facade alone, and the response is what it does on that one argument.
  \<^item> In both cases a lifecycle handler that raises ends the request with its exception,
    before the routed handler is called.
\<close>

theorem component_routing:
  assumes "verify_request L gw req = (tr, None)"
    and "json_loads L (body req) = Inr p"
    and "p = JObj kvs"
    and "map_of kvs ''type'' = Some (JInt 3)"
    and "map_of kvs ''data'' = Some (JObj dkvs)"
    and "map_of dkvs ''component_type'' = Some (JInt k)"
    and "map_of dkvs ''custom_id'' = Some (JStr cid)"
    and "events gw ''interaction_receive'' = Some (PyList hs1)
         \<or> hs1 = [] \<and> events gw ''interaction_receive'' \<in> {None, Some PyNone}"
    and "events gw ''menu_select'' = Some (PyList hsm)
         \<or> hsm = [] \<and> events gw ''menu_select'' \<in> {None, Some PyNone}"
    and "events gw ''button_click'' = Some (PyList hsb)
         \<or> hsb = [] \<and> events gw ''button_click'' \<in> {None, Some PyNone}"
  shows "(3 \<le> k \<and> k \<le> 8 \<and> map_of dkvs ''values'' = Some (JArr xs) \<and> menus gw cid = Some h
            \<and> all_return (lifecycle hs1 ''menu_select'' hsm) p \<longrightarrow>
            interaction L gw req =
              (tr @ JsonLoads # fired (lifecycle hs1 ''menu_select'' hsm) p
                 @ [Invoke (hname h) [Interaction p, Plain (JArr xs)]],
               (case hbody h [Interaction p, Plain (JArr xs)] of
                  Inl e \<Rightarrow> Raised e | Inr v \<Rightarrow> Returned (Json v))))
       \<and> ((k < 3 \<or> 8 < k) \<and> buttons gw cid = Some h
            \<and> all_return (lifecycle hs1 ''button_click'' hsb) p \<longrightarrow>
            interaction L gw req =
              (tr @ JsonLoads # fired (lifecycle hs1 ''button_click'' hsb) p
                 @ [Invoke (hname h) [Interaction p]],
               (case hbody h [Interaction p] of
                  Inl e \<Rightarrow> Raised e | Inr v \<Rightarrow> Returned (Json v))))
       \<and> (3 \<le> k \<and> k \<le> 8 \<and> map_of dkvs ''values'' = Some (JArr xs) \<and> menus gw cid = Some h
            \<and> lifecycle hs1 ''menu_select'' hsm = pre @ (ev, f) # post
            \<and> all_return pre p
            \<and> hbody f [Interaction p] = Inl x \<longrightarrow>
            interaction L gw req = (tr @ JsonLoads # fired (pre @ [(ev, f)]) p, Raised x))
       \<and> ((k < 3 \<or> 8 < k) \<and> buttons gw cid = Some h
            \<and> lifecycle hs1 ''button_click'' hsb = pre @ (ev, f) # post
            \<and> all_return pre p
            \<and> hbody f [Interaction p] = Inl x \<longrightarrow>
            interaction L gw req = (tr @ JsonLoads # fired (pre @ [(ev, f)]) p, Raised x))"
proof -
  note iv = interaction_verified[OF assms(1,2)]
  have type: "getitem_str p ''type'' = Inr (JInt 3)"
    and data: "getitem_str p ''data'' = Inr (JObj dkvs)"
    and ct: "getitem_str (JObj dkvs) ''component_type'' = Inr (JInt k)"
    and cid: "getitem_str (JObj dkvs) ''custom_id'' = Inr (JStr cid)"
    using assms(3,4,5,6,7) by simp_all
  note pc = process_component[OF type py_eq_int_3]
  note h1 = event_handlers_held[OF assms(8)]
  note hm = event_handlers_held[OF assms(9)]
  note hb = event_handlers_held[OF assms(10)]
  let ?lm = "lifecycle hs1 ''menu_select'' hsm"
  let ?lb = "lifecycle hs1 ''button_click'' hsb"
  have menu: "interaction L gw req
      = (tr @ JsonLoads
           # fst (with_lifecycle gw ''menu_select'' p (invoke h [Interaction p, Plain (JArr xs)])),
         snd (with_lifecycle gw ''menu_select'' p (invoke h [Interaction p, Plain (JArr xs)])))"
    if "3 \<le> k" "k \<le> 8" "map_of dkvs ''values'' = Some (JArr xs)" "menus gw cid = Some h"
  proof -
    have m: "is_select_menu (JInt k)" using that(1,2) by (simp add: is_select_menu_int)
    have vs: "getitem_str (JObj dkvs) ''values'' = Inr (JArr xs)" using that(3) by simp
    show ?thesis
      using iv pc component_menu[OF data ct m menu_value_of_list[OF vs]]
        route_menu_registered[OF cid that(4) vs]
      by simp
  qed
  have button: "interaction L gw req
      = (tr @ JsonLoads # fst (with_lifecycle gw ''button_click'' p (invoke h [Interaction p])),
         snd (with_lifecycle gw ''button_click'' p (invoke h [Interaction p])))"
    if "k < 3 \<or> 8 < k" "buttons gw cid = Some h"
  proof -
    have m: "\<not> is_select_menu (JInt k)" using that(1) by (auto simp: is_select_menu_int)
    show ?thesis
      using iv pc component_button[OF data ct m cid that(2)] by simp
  qed
  show ?thesis
  proof (intro conjI impI)
    assume "3 \<le> k \<and> k \<le> 8 \<and> map_of dkvs ''values'' = Some (JArr xs) \<and> menus gw cid = Some h
        \<and> all_return ?lm p"
    then have a: "3 \<le> k" "k \<le> 8" "map_of dkvs ''values'' = Some (JArr xs)"
        "menus gw cid = Some h" "all_return ?lm p"
      by simp_all
    show "interaction L gw req =
        (tr @ JsonLoads # fired ?lm p @ [Invoke (hname h) [Interaction p, Plain (JArr xs)]],
         (case hbody h [Interaction p, Plain (JArr xs)] of
            Inl e \<Rightarrow> Raised e | Inr v \<Rightarrow> Returned (Json v)))"
      using menu[OF a(1,2,3,4)] with_lifecycle_all_return[OF h1 hm a(5)]
      by (simp add: invoke_parts)
  next
    assume "(k < 3 \<or> 8 < k) \<and> buttons gw cid = Some h \<and> all_return ?lb p"
    then have a: "k < 3 \<or> 8 < k" "buttons gw cid = Some h" "all_return ?lb p"
      by simp_all
    show "interaction L gw req =
        (tr @ JsonLoads # fired ?lb p @ [Invoke (hname h) [Interaction p]],
         (case hbody h [Interaction p] of Inl e \<Rightarrow> Raised e | Inr v \<Rightarrow> Returned (Json v)))"
      using button[OF a(1,2)] with_lifecycle_all_return[OF h1 hb a(3)]
      by (simp add: invoke_parts)
  next
    assume "3 \<le> k \<and> k \<le> 8 \<and> map_of dkvs ''values'' = Some (JArr xs) \<and> menus gw cid = Some h
        \<and> ?lm = pre @ (ev, f) # post \<and> all_return pre p \<and> hbody f [Interaction p] = Inl x"
    then have a: "3 \<le> k" "k \<le> 8" "map_of dkvs ''values'' = Some (JArr xs)"
        "menus gw cid = Some h" "?lm = pre @ (ev, f) # post" "all_return pre p"
        "hbody f [Interaction p] = Inl x"
      by simp_all
    show "interaction L gw req = (tr @ JsonLoads # fired (pre @ [(ev, f)]) p, Raised x)"
      using menu[OF a(1,2,3,4)] with_lifecycle_raises[OF h1 hm a(5,6,7)] by simp
  next
    assume "(k < 3 \<or> 8 < k) \<and> buttons gw cid = Some h
        \<and> ?lb = pre @ (ev, f) # post \<and> all_return pre p \<and> hbody f [Interaction p] = Inl x"
    then have a: "k < 3 \<or> 8 < k" "buttons gw cid = Some h" "?lb = pre @ (ev, f) # post"
        "all_return pre p" "hbody f [Interaction p] = Inl x"
      by simp_all
    show "interaction L gw req = (tr @ JsonLoads # fired (pre @ [(ev, f)]) p, Raised x)"
      using button[OF a(1,2)] with_lifecycle_raises[OF h1 hb a(3,4,5)] by simp
  qed
qed

text \<open>
  On the example client: the menu \<^verbatim>\<open>menu1\<close> with the values \<^verbatim>\<open>["x", "y"]\<close> is called
  with the facade and that list, and answers with the two arguments it received; the
  button \<^verbatim>\<open>ok\<close> is called with the facade alone; and on the client whose first handler
  of \<^verbatim>\<open>menu_select\<close> raises, the menu is not called.
\<close>

theorem component_routing_witness:
  "interaction (stub_library xy_menu_payload) busy_client (example_request good_signature)
     = ([Verify example_message (1 # replicate 63 0), JsonLoads,
         Fire ''interaction_receive'' ''audit'' [Interaction xy_menu_payload],
         Fire ''interaction_receive'' ''trace'' [Interaction xy_menu_payload],
         Fire ''menu_select'' ''picked'' [Interaction xy_menu_payload],
         Invoke ''on_menu'' [Interaction xy_menu_payload, Plain (JArr [JStr ''x'', JStr ''y''])]],
        Returned (Json (JArr [JObj [(''interaction'', xy_menu_payload)],
                              JArr [JStr ''x'', JStr ''y'']])))
   \<and> interaction (stub_library button_payload) busy_client (example_request good_signature)
     = ([Verify example_message (1 # replicate 63 0), JsonLoads,
         Fire ''interaction_receive'' ''audit'' [Interaction button_payload],
         Fire ''interaction_receive'' ''trace'' [Interaction button_payload],
         Invoke ''on_ok'' [Interaction button_payload]],
        Returned (Json (JArr [JObj [(''interaction'', button_payload)]])))
   \<and> interaction (stub_library xy_menu_payload) faulty_client (example_request good_signature)
     = ([Verify example_message (1 # replicate 63 0), JsonLoads,
         Fire ''interaction_receive'' ''audit'' [Interaction xy_menu_payload],
         Fire ''menu_select'' ''broken'' [Interaction xy_menu_payload]],
        Raised (HandlerFailure ''broken''))
   \<and> interaction (stub_library button_payload) faulty_client (example_request good_signature)
     = ([Verify example_message (1 # replicate 63 0), JsonLoads,
         Fire ''interaction_receive'' ''audit'' [Interaction button_payload],
         Fire ''button_click'' ''broken'' [Interaction button_payload]],
        Raised (HandlerFailure ''broken''))"
proof -
  let ?md = "[(''component_type'', JInt 3), (''custom_id'', JStr ''menu1''),
              (''values'', JArr [JStr ''x'', JStr ''y''])]"
  let ?bd = "[(''component_type'', JInt 2), (''custom_id'', JStr ''ok'')]"
  let ?m = "[(''type'', JInt 3), (''data'', JObj ?md)]"
  let ?b = "[(''type'', JInt 3), (''data'', JObj ?bd)]"
  have menu:
    "map_of ?m ''type'' = Some (JInt 3)"
    "map_of ?m ''data'' = Some (JObj ?md)"
    "map_of ?md ''component_type'' = Some (JInt 3)"
    "map_of ?md ''custom_id'' = Some (JStr ''menu1'')"
    by simp_all
  have button:
    "map_of ?b ''type'' = Some (JInt 3)"
    "map_of ?b ''data'' = Some (JObj ?bd)"
    "map_of ?bd ''component_type'' = Some (JInt 2)"
    "map_of ?bd ''custom_id'' = Some (JStr ''ok'')"
    by simp_all
  have none: "([] :: handler list) = [] \<and> events busy_client ''button_click'' \<in> {None, Some PyNone}"
    by (simp add: busy_events)
  note a = component_routing[where h = "echo ''on_menu''" and xs = "[JStr ''x'', JStr ''y'']",
      OF verify_examples(2) json_loads_stub xy_menu_payload_def menu
         disjI1[OF busy_events(1)] disjI1[OF busy_events(3)] disjI2[OF none]]
  note b = component_routing[where h = "echo ''on_ok''",
      OF verify_examples(2) json_loads_stub button_payload_def button
         disjI1[OF busy_events(1)] disjI1[OF busy_events(3)] disjI2[OF none]]
  note c = component_routing[where h = "echo ''on_menu''" and xs = "[JStr ''x'', JStr ''y'']"
        and pre = "[(''interaction_receive'', returning ''audit'' JNull)]"
        and ev = "''menu_select''" and f = "failing ''broken''"
        and post = "[(''menu_select'', returning ''late'' JNull)]"
        and x = "HandlerFailure ''broken''",
      OF verify_examples(3) json_loads_stub xy_menu_payload_def menu
         disjI1[OF faulty_events(1)] disjI1[OF faulty_events(3)] disjI1[OF faulty_events(4)]]
  note d = component_routing[where h = "echo ''on_ok''"
        and pre = "[(''interaction_receive'', returning ''audit'' JNull)]"
        and ev = "''button_click''" and f = "failing ''broken''"
        and post = "[]"
        and x = "HandlerFailure ''broken''",
      OF verify_examples(3) json_loads_stub button_payload_def button
         disjI1[OF faulty_events(1)] disjI1[OF faulty_events(3)] disjI1[OF faulty_events(4)]]
  have "interaction (stub_library xy_menu_payload) busy_client (example_request good_signature)
     = ([Verify example_message (1 # replicate 63 0), JsonLoads,
         Fire ''interaction_receive'' ''audit'' [Interaction xy_menu_payload],
         Fire ''interaction_receive'' ''trace'' [Interaction xy_menu_payload],
         Fire ''menu_select'' ''picked'' [Interaction xy_menu_payload],
         Invoke ''on_menu'' [Interaction xy_menu_payload, Plain (JArr [JStr ''x'', JStr ''y''])]],
        Returned (Json (JArr [JObj [(''interaction'', xy_menu_payload)],
                              JArr [JStr ''x'', JStr ''y'']])))"
    using a
    by (simp add: busy_registries lifecycle_def all_return_def fired_def returning_def echo_def)
  moreover have "interaction (stub_library button_payload) busy_client
       (example_request good_signature)
     = ([Verify example_message (1 # replicate 63 0), JsonLoads,
         Fire ''interaction_receive'' ''audit'' [Interaction button_payload],
         Fire ''interaction_receive'' ''trace'' [Interaction button_payload],
         Invoke ''on_ok'' [Interaction button_payload]],
        Returned (Json (JArr [JObj [(''interaction'', button_payload)]])))"
    using b
    by (simp add: busy_registries lifecycle_def all_return_def fired_def returning_def echo_def)
  moreover have "interaction (stub_library xy_menu_payload) faulty_client
       (example_request good_signature)
     = ([Verify example_message (1 # replicate 63 0), JsonLoads,
         Fire ''interaction_receive'' ''audit'' [Interaction xy_menu_payload],
         Fire ''menu_select'' ''broken'' [Interaction xy_menu_payload]],
        Raised (HandlerFailure ''broken''))"
    using c
    by (simp add: faulty_registries lifecycle_def all_return_def fired_def returning_def
        failing_def echo_def)
  moreover have "interaction (stub_library button_payload) faulty_client
       (example_request good_signature)
     = ([Verify example_message (1 # replicate 63 0), JsonLoads,
         Fire ''interaction_receive'' ''audit'' [Interaction button_payload],
         Fire ''button_click'' ''broken'' [Interaction button_payload]],
        Raised (HandlerFailure ''broken''))"
    using d
    by (simp add: faulty_registries lifecycle_def all_return_def fired_def returning_def
        failing_def echo_def)
  ultimately show ?thesis by simp
qed

section \<open>The value of a select menu\<close>

text \<open>
  Claim C5, as amended: for a verified component interaction (type 3) whose component
  type denotes a select menu and whose \<^verbatim>\<open>data.values\<close> is present, the value extracted
  is \<^verbatim>\<open>data.values[0]\<close> when the values are a non-empty list and none when they are
  empty (or any other false value), and in both cases the payload is processed: the
  request goes on with the lookup of the menu.
\<close>

theorem menu_value_when_values_present:
  assumes "verify_request L gw req = (tr, None)"
    and "json_loads L (body req) = Inr p"
    and "getitem_str p ''type'' = Inr t"
    and "py_eq_int t 3"
    and "getitem_str p ''data'' = Inr d"
    and "getitem_str d ''component_type'' = Inr ct"
    and "is_select_menu ct"
    and "getitem_str d ''values'' = Inr vs"
  shows "(\<not> truthy vs \<longrightarrow>
            menu_value d = Inr JNull
            \<and> interaction L gw req
                = (tr @ JsonLoads # fst (route_menu gw p d), snd (route_menu gw p d)))
       \<and> (\<forall>x xs. vs = JArr (x # xs) \<longrightarrow>
            menu_value d = Inr x
            \<and> interaction L gw req
                = (tr @ JsonLoads # fst (route_menu gw p d), snd (route_menu gw p d)))"
proof -
  note iv = interaction_verified[OF assms(1,2)]
  note pc = process_component[OF assms(3,4)]
  have continues: "interaction L gw req
      = (tr @ JsonLoads # fst (route_menu gw p d), snd (route_menu gw p d))"
    if "menu_value d = Inr value" for "value"
    using iv pc component_menu[OF assms(5,6,7) that] by simp
  have falsy: "menu_value d = Inr JNull" if "\<not> truthy vs"
    using menu_value_falsy[OF assms(8) that] .
  have first: "menu_value d = Inr x" if "vs = JArr (x # xs)" for x xs
    using menu_value_of_list[of d "x # xs"] assms(8) that by simp
  show ?thesis
    using falsy first continues by blast
qed

text \<open>
  The scenario of the specification, \<^verbatim>\<open>values = ["opt1"]\<close> for the registered menu
  \<^verbatim>\<open>menu1\<close>, and the same menu with no value selected.
\<close>

theorem menu_value_when_values_present_witness:
  "menu_value (JObj [(''component_type'', JInt 3), (''custom_id'', JStr ''menu1''),
                     (''values'', JArr [JStr ''opt1''])]) = Inr (JStr ''opt1'')
   \<and> interaction (stub_library opt1_menu_payload) lively_client (example_request good_signature)
     = ([Verify example_message (1 # replicate 63 0), JsonLoads,
         Fire ''interaction_receive'' ''audit'' [Interaction opt1_menu_payload],
         Invoke ''on_menu'' [Interaction opt1_menu_payload, Plain (JArr [JStr ''opt1''])]],
        Returned (Json (JStr ''chosen'')))
   \<and> menu_value (JObj [(''component_type'', JInt 3), (''custom_id'', JStr ''menu1''),
                     (''values'', JArr [])]) = Inr JNull
   \<and> interaction (stub_library empty_values_payload) lively_client
       (example_request good_signature)
     = ([Verify example_message (1 # replicate 63 0), JsonLoads,
         Fire ''interaction_receive'' ''audit'' [Interaction empty_values_payload],
         Invoke ''on_menu'' [Interaction empty_values_payload, Plain (JArr [])]],
        Returned (Json (JStr ''chosen'')))"
proof -
  let ?d1 = "JObj [(''component_type'', JInt 3), (''custom_id'', JStr ''menu1''),
                   (''values'', JArr [JStr ''opt1''])]"
  let ?d0 = "JObj [(''component_type'', JInt 3), (''custom_id'', JStr ''menu1''),
                   (''values'', JArr [])]"
  have one:
    "getitem_str opt1_menu_payload ''type'' = Inr (JInt 3)"
    "getitem_str opt1_menu_payload ''data'' = Inr ?d1"
    "getitem_str ?d1 ''component_type'' = Inr (JInt 3)"
    "getitem_str ?d1 ''values'' = Inr (JArr [JStr ''opt1''])"
    by (simp_all add: opt1_menu_payload_def)
  have none:
    "getitem_str empty_values_payload ''type'' = Inr (JInt 3)"
    "getitem_str empty_values_payload ''data'' = Inr ?d0"
    "getitem_str ?d0 ''component_type'' = Inr (JInt 3)"
    "getitem_str ?d0 ''values'' = Inr (JArr [])"
    by (simp_all add: empty_values_payload_def)
  note a = menu_value_when_values_present[OF verify_lively json_loads_stub one(1) py_eq_int_3
      one(2,3) select_menu_codes(1) one(4)]
  note b = menu_value_when_values_present[OF verify_lively json_loads_stub none(1) py_eq_int_3
      none(2,3) select_menu_codes(1) none(4)]
  have r1: "route_menu lively_client opt1_menu_payload ?d1
      = ([Fire ''interaction_receive'' ''audit'' [Interaction opt1_menu_payload],
          Invoke ''on_menu'' [Interaction opt1_menu_payload, Plain (JArr [JStr ''opt1''])]],
         Returned (Json (JStr ''chosen'')))"
    by (simp add: route_menu_def or_raise_def lively_registries with_lifecycle_def
        lively_handlers returning_def invoke_def)
  have r0: "route_menu lively_client empty_values_payload ?d0
      = ([Fire ''interaction_receive'' ''audit'' [Interaction empty_values_payload],
          Invoke ''on_menu'' [Interaction empty_values_payload, Plain (JArr [])]],
         Returned (Json (JStr ''chosen'')))"
    by (simp add: route_menu_def or_raise_def lively_registries with_lifecycle_def
        lively_handlers returning_def invoke_def)
  show ?thesis using a b r1 r0 by simp
qed

text \<open>
  Claim C5 as stated fails for a payload without the key \<^verbatim>\<open>values\<close>: line 291 reads
  \<^verbatim>\<open>data["values"]\<close> in its condition, which raises KeyError, and the registered menu
  is never called.
\<close>

theorem menu_without_values_counterexample:
  "interaction (stub_library no_values_payload) lively_client (example_request good_signature)
     = ([Verify example_message (1 # replicate 63 0), JsonLoads], Raised KeyError)"
  by (simp add: interaction_def verify_lively)
     (simp add: no_values_payload_def process_request_def or_raise_def py_eq_int_def
        component_branch_def is_select_menu_def menu_value_def)

section \<open>The message that is verified\<close>






















end
